theory Spec2Isabelle
  imports Main
begin

section \<open>Data\<close>

text \<open>
  A source reported by the audio server. The program reads two attributes of it,
  \<open>src.name\<close> and \<open>src.description\<close>, and never writes to one, so a source is a
  value here.
\<close>

record audio_device =
  name :: string
  description :: string

text \<open>
  The exceptions that can leave the program. \<open>Exception\<close> is the plain Python
  exception raised by \<open>enable_noise_suppression\<close>, with its message;
  the others come from the libraries the program calls.
\<close>

datatype error =
    Exception string
  | PulseOperationFailed
  | ConnectionRefusedError
  | KeyError string
  | FileNotFoundError string
  | FileExistsError string
  | NotADirectoryError string
  | IsADirectoryError string
  | PermissionError string
  | SameFileError
  | AttributeError string
  | SystemExit

text \<open>
  What the audio server is asked to do. Every request made through the global
  \<open>pulse\<close> client or through the textual control channel is recorded, in the order
  it is made: an enumeration, a module load with the module's name, its argument
  string and whether the server accepted it, and a line written to the control
  channel.
\<close>

datatype server_call =
    SourceList
  | ModuleLoad string string bool
  | CliWrite string

section \<open>The world the program runs in\<close>

text \<open>
  \<^item> \<open>heap\<close>: the Python list objects; a reference is an index into it, a new list
    is allocated at the end;
  \<^item> \<open>server_sources\<close>: what the server answers to \<open>pulse.source_list()\<close> now;
  \<^item> \<open>server_accepts\<close>: whether the server accepts a module load, given all it has
    been asked so far, the module name and the argument string;
  \<^item> \<open>cli_available\<close>: whether \<open>pulsectl.connect_to_cli()\<close> gets a connection;
  \<^item> \<open>server_log\<close>: the requests made so far, oldest first;
  \<^item> \<open>environ\<close>: \<open>os.environ\<close>;
  \<^item> \<open>dirs\<close>, \<open>files\<close>: the directories and the regular files (with their content)
    of the file system; \<open>denied\<close>: the paths the process may not create or write;
  \<^item> \<open>stdout\<close>: the lines printed so far.
\<close>

record world =
  heap :: "audio_device list list"
  server_sources :: "audio_device list"
  server_accepts :: "server_call list \<Rightarrow> string \<Rightarrow> string \<Rightarrow> bool"
  cli_available :: bool
  server_log :: "server_call list"
  environ :: "string \<rightharpoonup> string"
  dirs :: "string set"
  files :: "string \<rightharpoonup> string"
  denied :: "string set"
  stdout :: "string list"

text \<open>
  An object of class \<open>CadmusBackendApp\<close>. \<open>audio_sources\<close> is a reference to a list
  object; \<open>app_context\<close> is reduced to the one method used, \<open>get_resource\<close>, which maps
  a resource name to its path or finds nothing.
\<close>

record backend =
  audio_sources :: nat
  cadmus_lib_path :: string
  app_context :: "string \<rightharpoonup> string"

subsection \<open>Sequencing with exceptions\<close>

text \<open>
  A statement maps the world to a result, an exception or a value, and the world it
  leaves. \<open>and_then\<close> runs a second statement unless the first raised: an exception
  ends the sequence and keeps the world as it was at that point.
\<close>

definition and_then ::
  "(world \<Rightarrow> (error + 'a) \<times> world) \<Rightarrow> ('a \<Rightarrow> world \<Rightarrow> (error + 'b) \<times> world)
     \<Rightarrow> world \<Rightarrow> (error + 'b) \<times> world" where
  "and_then f g w =
     (case f w of
        (Inl e, w') \<Rightarrow> (Inl e, w')
      | (Inr x, w') \<Rightarrow> g x w')"

subsection \<open>List objects\<close>

definition list_new :: "audio_device list \<Rightarrow> world \<Rightarrow> nat \<times> world" where
  "list_new xs w = (length (heap w), w\<lparr>heap := heap w @ [xs]\<rparr>)"

definition list_get :: "nat \<Rightarrow> world \<Rightarrow> audio_device list" where
  "list_get r w = heap w ! r"

definition list_append :: "nat \<Rightarrow> audio_device \<Rightarrow> world \<Rightarrow> world" where
  "list_append r x w = w\<lparr>heap := (heap w)[r := heap w ! r @ [x]]\<rparr>"

definition list_copy :: "nat \<Rightarrow> world \<Rightarrow> nat \<times> world" where
  "list_copy r w = list_new (list_get r w) w"

text \<open>Any in-place change a caller makes to a list object it holds.\<close>

definition list_mutate ::
  "nat \<Rightarrow> (audio_device list \<Rightarrow> audio_device list) \<Rightarrow> world \<Rightarrow> world" where
  "list_mutate r f w = w\<lparr>heap := (heap w)[r := f (heap w ! r)]\<rparr>"

subsection \<open>The audio server client\<close>

definition pulse_source_list :: "world \<Rightarrow> audio_device list \<times> world" where
  "pulse_source_list w =
     (server_sources w, w\<lparr>server_log := server_log w @ [SourceList]\<rparr>)"

definition pulse_module_load :: "string \<Rightarrow> string \<Rightarrow> world \<Rightarrow> (error + unit) \<times> world" where
  "pulse_module_load module_name module_args w =
     (let ok = server_accepts w (server_log w) module_name module_args;
          w' = w\<lparr>server_log := server_log w @ [ModuleLoad module_name module_args ok]\<rparr>
      in if ok then (Inr (), w') else (Inl PulseOperationFailed, w'))"

definition cli_write :: "string \<Rightarrow> world \<Rightarrow> world" where
  "cli_write s w = w\<lparr>server_log := server_log w @ [CliWrite s]\<rparr>"

definition print :: "string \<Rightarrow> world \<Rightarrow> world" where
  "print s w = w\<lparr>stdout := stdout w @ [s]\<rparr>"

section \<open>CadmusBackendApp.sources_list\<close>

text \<open>
  \<^verbatim>\<open>
  def sources_list(self):
      if len(self.audio_sources) > 0:
          return self.audio_sources.copy()
      for src in pulse.source_list():
          self.audio_sources.append(src)
      return self.audio_sources.copy()
  \<close>
  The result is the reference to the copy.
\<close>

definition sources_list :: "backend \<Rightarrow> world \<Rightarrow> nat \<times> world" where
  "sources_list self w =
     (if length (list_get (audio_sources self) w) > 0
      then list_copy (audio_sources self) w
      else
        (let (srcs, w1) = pulse_source_list w;
             w2 = foldl (\<lambda>w src. list_append (audio_sources self) src w) w1 srcs
         in list_copy (audio_sources self) w2))"


section \<open>CadmusPulseInterface\<close>

text \<open>
  \<^verbatim>\<open>"%d" % control_level\<close> for a Python int: decimal digits, with a minus sign in front of a
  negative number.
\<close>

fun str_of_nat :: "nat \<Rightarrow> string" where
  "str_of_nat n =
     (if n < 10 then [''0123456789'' ! n]
      else str_of_nat (n div 10) @ [''0123456789'' ! (n mod 10)])"

definition str_of_int :: "int \<Rightarrow> string" where
  "str_of_int i = (if i < 0 then CHR ''-'' # str_of_nat (nat (- i)) else str_of_nat (nat i))"

text \<open>
  The argument of \<open>cli_command\<close> is a string or a list of strings
  (\<^verbatim>\<open>isinstance(command, list)\<close>).
\<close>

datatype command = Str string | Lst "string list"

text \<open>
  \<^verbatim>\<open>
  def cli_command(command):
      if not isinstance(command, list):
          command = [command]
      with contextlib.closing(pulsectl.connect_to_cli()) as s:
          for c in command:
              s.write(c + "\n")
  \<close>
  Nothing is read back from the channel: what the server answers to a line never
  reaches the program.
\<close>

definition cli_command :: "command \<Rightarrow> world \<Rightarrow> (error + unit) \<times> world" where
  "cli_command command w =
     (let command = (case command of Lst cs \<Rightarrow> cs | Str c \<Rightarrow> [c])
      in if cli_available w
         then (Inr (), foldl (\<lambda>w c. cli_write (c @ [CHR 0x0A]) w) w command)
         else (Inl ConnectionRefusedError, w))"

text \<open>
  \<open>load_modules\<close>: the floor on the control level, four module loads one after the
  other, and a printed line. No call is inside a \<^verbatim>\<open>try\<close>: the first load the server
  refuses ends the function with that exception. The third parameter, \<open>cadmus_lib_path\<close>
  in the source, is \<open>lib_path\<close> here (the field of the backend has the name).
\<close>

definition load_modules :: "string \<Rightarrow> int \<Rightarrow> string \<Rightarrow> world \<Rightarrow> (error + unit) \<times> world" where
  \<open>load_modules mic_name control_level lib_path =
     (let control_level = max control_level 50 in
      and_then (pulse_module_load ''module-null-sink''
        (''sink_name=mic_denoised_out '' @
         ''sink_properties="device.description='Cadmus Microphone Sink'"'')) (\<lambda>_.
      and_then (pulse_module_load ''module-ladspa-sink''
        (''sink_name=mic_raw_in sink_master=mic_denoised_out label=noise_suppressor_mono plugin='' @
         lib_path @ '' control='' @ str_of_int control_level @ '' '' @
         ''sink_properties="device.description='Cadmus Raw Microphone Redirect'"'')) (\<lambda>_.
      and_then (pulse_module_load ''module-loopback''
        (''latency_msec=1 source='' @ mic_name @ '' sink=mic_raw_in channels=1'')) (\<lambda>_.
      and_then (pulse_module_load ''module-remap-source''
        (''master=mic_denoised_out.monitor source_name=denoised '' @
         ''source_properties="device.description='Cadmus Denoised Microphone (Use me!)'"'')) (\<lambda>_.
      (\<lambda>w. (Inr (), print (''Set suppression level to '' @ str_of_int control_level) w)))))))\<close>

definition unload_modules :: "world \<Rightarrow> (error + unit) \<times> world" where
  "unload_modules =
     cli_command (Lst
       [''unload-module module-loopback'',
        ''unload-module module-null-sink'',
        ''unload-module module-ladspa-sink'',
        ''unload-module module-remap-source''])"

section \<open>The file system\<close>

text \<open>
  \<open>os.path.join\<close> on POSIX: a component that starts with a slash replaces what
  came before it, any other one is appended, after a slash unless the path so far is
  empty or ends with one.
\<close>

definition os_path_join :: "string \<Rightarrow> string list \<Rightarrow> string" where
  "os_path_join a p =
     foldl (\<lambda>path b.
        if (case b of [] \<Rightarrow> False | c # _ \<Rightarrow> c = CHR ''/'') then b
        else if path = [] \<or> last path = CHR ''/'' then path @ b
        else path @ ''/'' @ b) a p"

text \<open>
  \<open>os.path.dirname\<close> on POSIX: everything up to the last slash, without the slashes
  at its end unless it consists of slashes only.
\<close>

definition os_path_dirname :: "string \<Rightarrow> string" where
  "os_path_dirname p =
     (let head = rev (dropWhile (\<lambda>c. c \<noteq> CHR ''/'') (rev p))
      in if head \<noteq> [] \<and> \<not> list_all (\<lambda>c. c = CHR ''/'') head
         then rev (dropWhile (\<lambda>c. c = CHR ''/'') (rev head))
         else head)"

definition os_path_exists :: "string \<Rightarrow> world \<Rightarrow> bool" where
  "os_path_exists p w = (p \<in> dirs w \<or> files w p \<noteq> None)"

text \<open>
  \<open>os.makedirs\<close> of a path: refused where the process may not create it or where
  something exists already. The model records the directory made, not the
  intermediate ones made on the way; paths are compared as strings.
\<close>

definition os_makedirs :: "string \<Rightarrow> world \<Rightarrow> (error + unit) \<times> world" where
  "os_makedirs p w =
     (if p \<in> denied w then (Inl (PermissionError p), w)
      else if os_path_exists p w then (Inl (FileExistsError p), w)
      else (Inr (), w\<lparr>dirs := insert p (dirs w)\<rparr>))"

text \<open>
  \<open>shutil.copyfile\<close>: the source is opened for reading, then the destination for
  writing (created, or truncated when it exists), and the content is copied.
\<close>

definition copyfile :: "string \<Rightarrow> string \<Rightarrow> world \<Rightarrow> (error + unit) \<times> world" where
  "copyfile src dst w =
     (if src = dst \<and> os_path_exists src w then (Inl SameFileError, w)
      else case files w src of
        None \<Rightarrow>
          (if src \<in> dirs w then (Inl (IsADirectoryError src), w)
           else (Inl (FileNotFoundError src), w))
      | Some content \<Rightarrow>
          if dst \<in> dirs w then (Inl (IsADirectoryError dst), w)
          else if os_path_dirname dst \<notin> dirs w then
            (if files w (os_path_dirname dst) \<noteq> None then (Inl (NotADirectoryError dst), w)
             else (Inl (FileNotFoundError dst), w))
          else if dst \<in> denied w then (Inl (PermissionError dst), w)
          else (Inr (), w\<lparr>files := (files w)(dst \<mapsto> content)\<rparr>))"

section \<open>CadmusBackendApp\<close>

text \<open>
  \<^verbatim>\<open>
  def drop_cadmus_binary(self):
      cadmus_cache_path = os.path.join(os.environ["HOME"], ".cache", "cadmus")
      if not os.path.exists(cadmus_cache_path):
          os.makedirs(cadmus_cache_path)
      self.cadmus_lib_path = os.path.join(cadmus_cache_path, "librnnoise_ladspa.so")
      copyfile(self.app_context.get_resource("librnnoise_ladspa.so"), self.cadmus_lib_path)
  \<close>
  The method assigns to a field of \<open>self\<close>, so it returns the object too, also when
  it raises: the path is recorded before the copy is tried.
\<close>

definition drop_cadmus_binary :: "backend \<Rightarrow> world \<Rightarrow> (error + unit) \<times> backend \<times> world" where
  "drop_cadmus_binary self w =
     (case environ w ''HOME'' of
        None \<Rightarrow> (Inl (KeyError ''HOME''), self, w)
      | Some home \<Rightarrow>
          (let cadmus_cache_path = os_path_join home [''.cache'', ''cadmus'']
           in case (if \<not> os_path_exists cadmus_cache_path w
                    then os_makedirs cadmus_cache_path w else (Inr (), w)) of
                (Inl e, w1) \<Rightarrow> (Inl e, self, w1)
              | (Inr _, w1) \<Rightarrow>
                  (let self1 = self\<lparr>cadmus_lib_path :=
                                 os_path_join cadmus_cache_path [''librnnoise_ladspa.so'']\<rparr>
                   in case app_context self1 ''librnnoise_ladspa.so'' of
                        None \<Rightarrow> (Inl (FileNotFoundError ''librnnoise_ladspa.so''), self1, w1)
                      | Some resource \<Rightarrow>
                          (case copyfile resource (cadmus_lib_path self1) w1 of
                             (r, w2) \<Rightarrow> (r, self1, w2)))))"

text \<open>
  \<^verbatim>\<open>
  def __init__(self, app_context):
      self.audio_sources = []
      self.cadmus_lib_path = ""
      self.app_context = app_context
      self.drop_cadmus_binary()
  \<close>
  A constructor that raises yields no object.
\<close>

definition CadmusBackendApp_init :: "(string \<rightharpoonup> string) \<Rightarrow> world \<Rightarrow> (error + backend) \<times> world" where
  "CadmusBackendApp_init ctx w =
     (let (r, w1) = list_new [] w;
          self = \<lparr>audio_sources = r, cadmus_lib_path = [], app_context = ctx\<rparr>
      in case drop_cadmus_binary self w1 of
           (Inl e, self', w2) \<Rightarrow> (Inl e, w2)
         | (Inr _, self', w2) \<Rightarrow> (Inr self', w2))"

definition disable_noise_suppression :: "backend \<Rightarrow> world \<Rightarrow> (error + unit) \<times> world" where
  "disable_noise_suppression self = unload_modules"

text \<open>
  \<^verbatim>\<open>
  def enable_noise_suppression(self, mic_name, control_level):
      if mic_name not in [src.name for src in self.sources_list()]:
          raise Exception(f"Unknown mic name {mic_name}")
      CadmusPulseInterface.load_modules(mic_name, control_level, self.cadmus_lib_path)
  \<close>
\<close>

definition enable_noise_suppression ::
  "backend \<Rightarrow> string \<Rightarrow> int \<Rightarrow> world \<Rightarrow> (error + unit) \<times> world" where
  "enable_noise_suppression self mic_name control_level w =
     (let (r, w1) = sources_list self w
      in if mic_name \<notin> set (map name (list_get r w1))
         then (Inl (Exception (''Unknown mic name '' @ mic_name)), w1)
         else load_modules mic_name control_level (cadmus_lib_path self) w1)"

section \<open>CadmusApplicationCli\<close>

text \<open>
  The namespace \<open>parse_args\<close> returns: \<open>cmd\<close> is the subcommand (\<open>None\<close> when there is
  none), \<open>source\<close> the positional argument of \<open>enable\<close>.
\<close>

record namespace =
  cmd :: "string option"
  source :: "string option"

record cli =
  backend_app :: backend
  args :: namespace

text \<open>
  The parser built in \<open>__init__\<close>: three subcommands, \<open>sources\<close>, \<open>enable\<close> with one
  positional argument restricted to \<open>choices\<close>, and \<open>disable\<close>. \<open>argv\<close> is the command
  line without the program name. Anything the parser does not accept ends the process
  (argparse prints the usage and exits; the exit status is not modelled). A word that
  starts with a dash is an option string to argparse and the parser declares none but
  the help option, so no such word gets through as a source.
\<close>

definition parse_args :: "string list \<Rightarrow> string list \<Rightarrow> error + namespace" where
  "parse_args choices argv =
     (case argv of
        [] \<Rightarrow> Inr \<lparr>cmd = None, source = None\<rparr>
      | [c] \<Rightarrow>
          if c = ''sources'' \<or> c = ''disable'' then Inr \<lparr>cmd = Some c, source = None\<rparr>
          else Inl SystemExit
      | [c, s] \<Rightarrow>
          if c = ''enable'' \<and> s \<in> set choices \<and> take 1 s \<noteq> ''-''
          then Inr \<lparr>cmd = Some c, source = Some s\<rparr>
          else Inl SystemExit
      | _ \<Rightarrow> Inl SystemExit)"

text \<open>
  \<^verbatim>\<open>
  def __init__(self, app_context):
      self.backend_app = CadmusBackendApp(app_context)
      ...
      subparser_enable.add_argument('source', help='The source to enable',
                                    choices=[src.name for src in self.backend_app.sources_list()])
      self.args = self.parser.parse_args()
  \<close>
\<close>

definition CadmusApplicationCli_init ::
  "(string \<rightharpoonup> string) \<Rightarrow> string list \<Rightarrow> world \<Rightarrow> (error + cli) \<times> world" where
  "CadmusApplicationCli_init ctx argv w =
     (case CadmusBackendApp_init ctx w of
        (Inl e, w1) \<Rightarrow> (Inl e, w1)
      | (Inr b, w1) \<Rightarrow>
          (let (r, w2) = sources_list b w1;
               choices = map name (list_get r w2)
           in case parse_args choices argv of
                Inl e \<Rightarrow> (Inl e, w2)
              | Inr ns \<Rightarrow> (Inr \<lparr>backend_app = b, args = ns\<rparr>, w2)))"

text \<open>
  \<^verbatim>\<open>
  def print_sources(self):
      print('Current sources:')
      for src in self.backend_app.sources_list():
          print('-----------------------------')
          print(f'name = {src.name}')
          print(f'description = {src.description}')
  \<close>
\<close>

definition print_sources :: "cli \<Rightarrow> world \<Rightarrow> (error + unit) \<times> world" where
  "print_sources self w =
     (let w1 = print ''Current sources:'' w;
          (r, w2) = sources_list (backend_app self) w1
      in (Inr (),
          foldl (\<lambda>w src.
                   print (''description = '' @ description src)
                     (print (''name = '' @ name src)
                        (print ''-----------------------------'' w)))
            w2 (list_get r w2)))"

text \<open>
  \<^verbatim>\<open>
  def run(self):
      if self.args.cmd == 'sources':
          self.print_sources()
      elif self.args.cmd == 'enable':
          self.backend_app.enable_noise_suppression(self.args.source, 50)
      elif self.args.cmd == 'disable':
          self.backend_app.disable_noise_suppression()
  \<close>
\<close>

definition run :: "cli \<Rightarrow> world \<Rightarrow> (error + unit) \<times> world" where
  "run self w =
     (if cmd (args self) = Some ''sources'' then print_sources self w
      else if cmd (args self) = Some ''enable'' then
        (case source (args self) of
           None \<Rightarrow> (Inl (AttributeError ''source''), w)
         | Some s \<Rightarrow> enable_noise_suppression (backend_app self) s 50 w)
      else if cmd (args self) = Some ''disable'' then
        disable_noise_suppression (backend_app self) w
      else (Inr (), w))"

text \<open>
  The script's entry point: \<^verbatim>\<open>app = CadmusApplicationCli(context); app.run()\<close>.
\<close>

definition main :: "(string \<rightharpoonup> string) \<Rightarrow> string list \<Rightarrow> world \<Rightarrow> (error + unit) \<times> world" where
  "main ctx argv = and_then (CadmusApplicationCli_init ctx argv) run"

section \<open>Callers of the enumerator\<close>

text \<open>A reference of the backend is live when it points into the heap.\<close>

definition live :: "backend \<Rightarrow> world \<Rightarrow> bool" where
  "live self w = (audio_sources self < length (heap w))"

text \<open>
  A process that calls \<open>sources_list\<close> again and again while the server's device list
  changes: the list given for each call is what the server would answer at that
  moment. The result is what each call returned (the content of the returned list at
  the moment it is returned).
\<close>

fun repeated_sources_list ::
  "backend \<Rightarrow> audio_device list list \<Rightarrow> world \<Rightarrow> audio_device list list \<times> world" where
  "repeated_sources_list self [] w = ([], w)"
| "repeated_sources_list self (srcs # later) w =
     (let (r, w1) = sources_list self (w\<lparr>server_sources := srcs\<rparr>);
          (results, w2) = repeated_sources_list self later w1
      in (list_get r w1 # results, w2))"

text \<open>
  A caller that also writes to the lists it was given: \<open>MutateReturned k xs\<close> replaces
  the content of the list returned by the \<open>k\<close>-th call so far with \<open>xs\<close>
  (any in-place change of that list object), and does nothing when there was no such
  call. The state is the references returned so far and the world.
\<close>

datatype client_step =
    is_call: CallSourcesList "audio_device list"
  | MutateReturned nat "audio_device list"

fun client_run :: "backend \<Rightarrow> client_step list \<Rightarrow> nat list \<times> world \<Rightarrow> nat list \<times> world" where
  "client_run self [] s = s"
| "client_run self (CallSourcesList srcs # steps) (refs, w) =
     (let (r, w1) = sources_list self (w\<lparr>server_sources := srcs\<rparr>)
      in client_run self steps (refs @ [r], w1))"
| "client_run self (MutateReturned k xs # steps) (refs, w) =
     client_run self steps
       (refs, if k < length refs then list_mutate (refs ! k) (\<lambda>_. xs) w else w)"


text \<open>
  Two worlds agree for a backend when its cache has the same content in both, both have
  allocated the same number of objects, and none of the references handed out is the
  cache itself.
\<close>

definition agree :: "backend \<Rightarrow> nat list \<Rightarrow> world \<Rightarrow> world \<Rightarrow> bool" where
  "agree self refs w w' =
     (live self w \<and> length (heap w) = length (heap w')
      \<and> list_get (audio_sources self) w = list_get (audio_sources self) w'
      \<and> (\<forall>r \<in> set refs. r \<noteq> audio_sources self))"

section \<open>An example world\<close>

definition mic0 :: audio_device where
  "mic0 = \<lparr>name = ''mic0'', description = ''Built-in Mic''\<rparr>"

definition mic1 :: audio_device where
  "mic1 = \<lparr>name = ''mic1'', description = ''USB Mic''\<rparr>"

definition example_context :: "string \<rightharpoonup> string" where
  "example_context = [''librnnoise_ladspa.so'' \<mapsto> ''/opt/cadmus/librnnoise_ladspa.so'']"

text \<open>
  A server that reports one microphone and accepts every load, a home directory without
  a cache directory yet, and one list object, empty: the cache of the backend below.
\<close>

definition example_world :: world where
  "example_world =
     \<lparr>heap = [[]], server_sources = [mic0], server_accepts = (\<lambda>_ _ _. True),
      cli_available = True, server_log = [],
      environ = [''HOME'' \<mapsto> ''/home/u''], dirs = {''/home/u''},
      files = [''/opt/cadmus/librnnoise_ladspa.so'' \<mapsto> ''ELF''], denied = {},
      stdout = []\<rparr>"

definition example_backend :: backend where
  "example_backend =
     \<lparr>audio_sources = 0, cadmus_lib_path = ''/home/u/.cache/cadmus/librnnoise_ladspa.so'',
      app_context = example_context\<rparr>"

section \<open>Facts about the enumerator\<close>

lemma foldl_list_append:
  "r < length (heap w) \<Longrightarrow>
   foldl (\<lambda>w src. list_append r src w) w xs = w\<lparr>heap := (heap w)[r := heap w ! r @ xs]\<rparr>"
proof (induction xs arbitrary: w)
  case Nil
  then show ?case by simp
next
  case (Cons x xs)
  then show ?case by (simp add: list_append_def)
qed

text \<open>
  The constructor leaves a backend whose cache reference is live and whose cache is
  empty: the state the facts below start from is the one every backend of the program
  starts in. Neither the file system calls nor \<open>drop_cadmus_binary\<close> touch the heap.
\<close>

lemma os_makedirs_heap: "heap (snd (os_makedirs p w)) = heap w"
  by (simp add: os_makedirs_def)

lemma copyfile_heap: "heap (snd (copyfile src dst w)) = heap w"
  by (simp add: copyfile_def split: option.split)

lemma drop_cadmus_binary_heap:
  "heap (snd (snd (drop_cadmus_binary self w))) = heap w
   \<and> audio_sources (fst (snd (drop_cadmus_binary self w))) = audio_sources self"
proof (cases "environ w ''HOME''")
  case None
  then show ?thesis by (simp add: drop_cadmus_binary_def)
next
  case (Some home)
  let ?cache = "os_path_join home [''.cache'', ''cadmus'']"
  let ?step = "if \<not> os_path_exists ?cache w then os_makedirs ?cache w else (Inr (), w)"
  obtain res w1 where step: "?step = (res, w1)" by (cases ?step)
  have h1: "heap w1 = heap w"
    using step os_makedirs_heap [of ?cache w] by (auto split: if_splits)
  show ?thesis
  proof (cases res)
    case (Inl e)
    with Some step h1 show ?thesis by (simp add: drop_cadmus_binary_def)
  next
    case (Inr u)
    let ?self1 = "self\<lparr>cadmus_lib_path := os_path_join ?cache [''librnnoise_ladspa.so'']\<rparr>"
    show ?thesis
    proof (cases "app_context self ''librnnoise_ladspa.so''")
      case None
      with Some step h1 Inr show ?thesis by (simp add: drop_cadmus_binary_def)
    next
      case (Some resource)
      with \<open>environ w ''HOME'' = Some home\<close> step h1 Inr
        copyfile_heap [of resource "os_path_join ?cache [''librnnoise_ladspa.so'']" w1]
      show ?thesis by (simp add: drop_cadmus_binary_def split_beta Let_def)
    qed
  qed
qed

lemma init_live:
  assumes "CadmusBackendApp_init ctx w = (Inr b, w1)"
  shows "live b w1 \<and> list_get (audio_sources b) w1 = []"
proof -
  let ?self = "\<lparr>audio_sources = length (heap w), cadmus_lib_path = [], app_context = ctx\<rparr>"
  let ?w0 = "w\<lparr>heap := heap w @ [[]]\<rparr>"
  obtain res b' w' where d: "drop_cadmus_binary ?self ?w0 = (res, b', w')"
    by (cases "drop_cadmus_binary ?self ?w0")
  from assms d have "b = b' \<and> w1 = w'"
    by (cases res) (simp_all add: CadmusBackendApp_init_def list_new_def)
  with drop_cadmus_binary_heap [of ?self ?w0] d show ?thesis
    by (simp add: live_def list_get_def)
qed

lemma sources_list_cached:
  assumes "live self w" and "list_get (audio_sources self) w \<noteq> []"
  shows "sources_list self w =
           (length (heap w), w\<lparr>heap := heap w @ [list_get (audio_sources self) w]\<rparr>)"
  using assms by (simp add: sources_list_def list_copy_def list_new_def)

lemma sources_list_uncached:
  assumes "live self w" and "list_get (audio_sources self) w = []"
  shows "sources_list self w =
           (length (heap w),
            w\<lparr>heap := (heap w)[audio_sources self := server_sources w] @ [server_sources w],
              server_log := server_log w @ [SourceList]\<rparr>)"
  using assms
  by (simp add: sources_list_def list_copy_def list_new_def pulse_source_list_def
      foldl_list_append live_def list_get_def)

lemma live_sources_list: "live self w \<Longrightarrow> live self (snd (sources_list self w))"
  by (cases "list_get (audio_sources self) w = []")
     (simp_all add: sources_list_cached sources_list_uncached live_def)

lemma live_server_sources [simp]: "live self (w\<lparr>server_sources := srcs\<rparr>) = live self w"
  by (simp add: live_def)

lemma list_get_server_sources [simp]: "list_get r (w\<lparr>server_sources := srcs\<rparr>) = list_get r w"
  by (simp add: list_get_def)

lemma repeated_cached:
  assumes "live self w" and "list_get (audio_sources self) w = snapshot" and "snapshot \<noteq> []"
  shows "fst (repeated_sources_list self changes w) = replicate (length changes) snapshot
       \<and> server_log (snd (repeated_sources_list self changes w)) = server_log w
       \<and> live self (snd (repeated_sources_list self changes w))
       \<and> list_get (audio_sources self) (snd (repeated_sources_list self changes w)) = snapshot"
  using assms
proof (induction changes arbitrary: w)
  case Nil
  then show ?case by simp
next
  case (Cons srcs later)
  let ?w0 = "w\<lparr>server_sources := srcs\<rparr>"
  let ?w1 = "w\<lparr>server_sources := srcs, heap := heap w @ [snapshot]\<rparr>"
  have step: "sources_list self ?w0 = (length (heap w), ?w1)"
    using Cons.prems by (simp add: sources_list_cached)
  have live1: "live self ?w1" using Cons.prems by (simp add: live_def)
  have get1: "list_get (audio_sources self) ?w1 = snapshot"
    using Cons.prems by (simp add: list_get_def live_def nth_append)
  have ret: "list_get (length (heap w)) ?w1 = snapshot"
    by (simp add: list_get_def)
  from Cons.IH [OF live1 get1 Cons.prems(3)] step ret show ?case
    by (simp add: split_beta)
qed

text \<open>
  Claim C5, as far as the code goes. When the first answer of the server is not empty,
  it is cached: that call and every later call return it, whatever the server's list has
  become in the meantime (\<open>later\<close> is arbitrary), and the server is asked exactly once.
  The cache of the backend starts empty, as \<open>__init__\<close> leaves it.
\<close>

theorem nonempty_enumeration_is_cached:
  assumes "live self w" and "list_get (audio_sources self) w = []" and "first \<noteq> []"
  shows "fst (repeated_sources_list self (first # later) w) = replicate (Suc (length later)) first
       \<and> server_log (snd (repeated_sources_list self (first # later) w)) = server_log w @ [SourceList]"
proof -
  let ?w0 = "w\<lparr>server_sources := first\<rparr>"
  let ?w1 = "w\<lparr>server_sources := first,
               heap := (heap w)[audio_sources self := first] @ [first],
               server_log := server_log w @ [SourceList]\<rparr>"
  have step: "sources_list self ?w0 = (length (heap w), ?w1)"
    using assms by (simp add: sources_list_uncached)
  have live1: "live self ?w1" using assms by (simp add: live_def)
  have get1: "list_get (audio_sources self) ?w1 = first"
    using assms by (simp add: list_get_def live_def nth_append)
  have ret: "list_get (length (heap w)) ?w1 = first"
    by (simp add: list_get_def nth_append)
  from repeated_cached [OF live1 get1 assms(3), of later] step ret show ?thesis
    by (simp add: split_beta)
qed

theorem nonempty_enumeration_is_cached_witness:
  "live example_backend example_world
   \<and> list_get (audio_sources example_backend) example_world = []
   \<and> [mic0] \<noteq> []
   \<and> fst (repeated_sources_list example_backend [[mic0], [], [mic0, mic1]] example_world)
       = [[mic0], [mic0], [mic0]]
   \<and> server_log (snd (repeated_sources_list example_backend [[mic0], [], [mic0, mic1]]
         example_world)) = [SourceList]"
proof -
  have h1: "live example_backend example_world"
    by (simp add: example_world_def example_backend_def live_def)
  have h2: "list_get (audio_sources example_backend) example_world = []"
    by (simp add: example_world_def example_backend_def list_get_def)
  have h3: "[mic0] \<noteq> []" by simp
  have "server_log example_world = []" by (simp add: example_world_def)
  with nonempty_enumeration_is_cached [OF h1 h2 h3, of "[[], [mic0, mic1]]"] h1 h2
  show ?thesis by (simp add: numeral_2_eq_2)
qed

text \<open>
  C5 does not hold as it is written, for every first call: an empty first answer is not
  kept. Here the server has no source at the first call and one at the second; the second
  call returns the new list, not the first result.
\<close>

theorem enumeration_cache_counterexample:
  "live example_backend example_world
   \<and> list_get (audio_sources example_backend) example_world = []
   \<and> fst (repeated_sources_list example_backend [[], [mic0]] example_world) = [[], [mic0]]
   \<and> [mic0] \<noteq> []"
  by (simp add: example_world_def example_backend_def live_def list_get_def
      sources_list_def list_copy_def list_new_def pulse_source_list_def list_append_def)

lemma repeated_empty:
  assumes "live self w" and "list_get (audio_sources self) w = []"
  shows "fst (repeated_sources_list self (replicate n []) w) = replicate n []
       \<and> server_log (snd (repeated_sources_list self (replicate n []) w))
           = server_log w @ replicate n SourceList
       \<and> live self (snd (repeated_sources_list self (replicate n []) w))
       \<and> list_get (audio_sources self) (snd (repeated_sources_list self (replicate n []) w)) = []"
  using assms
proof (induction n arbitrary: w)
  case 0
  then show ?case by simp
next
  case (Suc n)
  let ?w0 = "w\<lparr>server_sources := []\<rparr>"
  let ?w1 = "w\<lparr>server_sources := [],
               heap := (heap w)[audio_sources self := []] @ [[]],
               server_log := server_log w @ [SourceList]\<rparr>"
  have step: "sources_list self ?w0 = (length (heap w), ?w1)"
    using Suc.prems by (simp add: sources_list_uncached)
  have live1: "live self ?w1" using Suc.prems by (simp add: live_def)
  have get1: "list_get (audio_sources self) ?w1 = []"
    using Suc.prems by (simp add: list_get_def live_def nth_append)
  have ret: "list_get (length (heap w)) ?w1 = []"
    by (simp add: list_get_def nth_append)
  from Suc.IH [OF live1 get1] step ret show ?case
    by (simp add: split_beta replicate_app_Cons_same)
qed

lemma repeated_append:
  "repeated_sources_list self (xs @ ys) w =
     (let (a, w1) = repeated_sources_list self xs w;
          (b, w2) = repeated_sources_list self ys w1
      in (a @ b, w2))"
  by (induction xs arbitrary: w) (simp_all add: split_beta)

text \<open>
  Claim C9. As long as the server answers with an empty list, nothing is cached: after
  any number \<open>n\<close> of such calls the cache is still empty, each of them has asked the
  server, and the next call asks again and returns what the server has by then.
\<close>

theorem empty_enumeration_is_not_cached:
  assumes "live self w" and "list_get (audio_sources self) w = []"
  shows "list_get (audio_sources self) (snd (repeated_sources_list self (replicate n []) w)) = []
       \<and> fst (repeated_sources_list self (replicate n [] @ [srcs]) w) = replicate n [] @ [srcs]
       \<and> server_log (snd (repeated_sources_list self (replicate n [] @ [srcs]) w))
           = server_log w @ replicate (Suc n) SourceList"
proof -
  let ?wn = "snd (repeated_sources_list self (replicate n []) w)"
  note e = repeated_empty [OF assms, of n]
  from e have live_n: "live self ?wn" and get_n: "list_get (audio_sources self) ?wn = []"
    by simp_all
  let ?w0 = "?wn\<lparr>server_sources := srcs\<rparr>"
  have step: "sources_list self ?w0 =
                (length (heap ?wn),
                 ?wn\<lparr>server_sources := srcs,
                     heap := (heap ?wn)[audio_sources self := srcs] @ [srcs],
                     server_log := server_log ?wn @ [SourceList]\<rparr>)"
    using live_n get_n by (simp add: sources_list_uncached)
  have last_call: "repeated_sources_list self [srcs] ?wn =
                ([srcs],
                 ?wn\<lparr>server_sources := srcs,
                     heap := (heap ?wn)[audio_sources self := srcs] @ [srcs],
                     server_log := server_log ?wn @ [SourceList]\<rparr>)"
    by (simp add: step list_get_def nth_append)
  show ?thesis
    using e by (simp add: repeated_append split_beta step list_get_def nth_append
        replicate_append_same)
qed

theorem empty_enumeration_is_not_cached_witness:
  "live example_backend example_world
   \<and> list_get (audio_sources example_backend) example_world = []
   \<and> list_get (audio_sources example_backend)
        (snd (repeated_sources_list example_backend [[], []] example_world)) = []
   \<and> fst (repeated_sources_list example_backend [[], [], [mic1]] example_world)
       = [[], [], [mic1]]
   \<and> server_log (snd (repeated_sources_list example_backend [[], [], [mic1]] example_world))
       = [SourceList, SourceList, SourceList]"
proof -
  have h1: "live example_backend example_world"
    by (simp add: example_world_def example_backend_def live_def)
  have h2: "list_get (audio_sources example_backend) example_world = []"
    by (simp add: example_world_def example_backend_def list_get_def)
  have l: "server_log example_world = []" by (simp add: example_world_def)
  have r: "replicate 2 ([] :: audio_device list) = [[], []]"
    by (simp add: numeral_2_eq_2)
  from empty_enumeration_is_not_cached [OF h1 h2, of 2 "[mic1]"] h1 h2 l r
  show ?thesis by (simp add: numeral_2_eq_2)
qed

lemma sources_list_ref:
  "live self w \<Longrightarrow> fst (sources_list self w) = length (heap w)"
  by (cases "list_get (audio_sources self) w = []")
     (simp_all add: sources_list_cached sources_list_uncached)

lemma sources_list_cache:
  "live self w \<Longrightarrow>
   list_get (audio_sources self) (snd (sources_list self w)) =
     (if list_get (audio_sources self) w = [] then server_sources w
      else list_get (audio_sources self) w)"
  by (cases "list_get (audio_sources self) w = []")
     (simp_all add: sources_list_cached sources_list_uncached list_get_def live_def nth_append)

lemma sources_list_heap_length:
  "live self w \<Longrightarrow> length (heap (snd (sources_list self w))) = Suc (length (heap w))"
  by (cases "list_get (audio_sources self) w = []")
     (simp_all add: sources_list_cached sources_list_uncached)

lemma sources_list_copy:
  "live self w \<Longrightarrow>
   list_get (fst (sources_list self w)) (snd (sources_list self w)) =
   list_get (audio_sources self) (snd (sources_list self w))"
  by (cases "list_get (audio_sources self) w = []")
     (simp_all add: sources_list_cached sources_list_uncached list_get_def live_def nth_append)

lemma agree_call:
  assumes "agree self refs w w'"
  shows "agree self (refs @ [fst (sources_list self (w\<lparr>server_sources := srcs\<rparr>))])
           (snd (sources_list self (w\<lparr>server_sources := srcs\<rparr>)))
           (snd (sources_list self (w'\<lparr>server_sources := srcs\<rparr>)))"
proof -
  let ?v = "w\<lparr>server_sources := srcs\<rparr>" and ?v' = "w'\<lparr>server_sources := srcs\<rparr>"
  from assms have l: "live self ?v" and l': "live self ?v'"
    by (simp_all add: agree_def live_def)
  from assms have g: "list_get (audio_sources self) ?v = list_get (audio_sources self) ?v'"
    by (simp add: agree_def)
  from assms have len: "length (heap ?v) = length (heap ?v')"
    by (simp add: agree_def)
  have 1: "live self (snd (sources_list self ?v))"
    by (rule live_sources_list [OF l])
  have 2: "length (heap (snd (sources_list self ?v))) = length (heap (snd (sources_list self ?v')))"
    by (simp only: sources_list_heap_length [OF l] sources_list_heap_length [OF l'] len)
  have 3: "list_get (audio_sources self) (snd (sources_list self ?v))
         = list_get (audio_sources self) (snd (sources_list self ?v'))"
    unfolding sources_list_cache [OF l] sources_list_cache [OF l'] g by simp
  have "fst (sources_list self ?v) = length (heap w)"
    using sources_list_ref [OF l] by simp
  moreover have "audio_sources self < length (heap w)"
    using assms by (simp add: agree_def live_def)
  ultimately have 4: "fst (sources_list self ?v) \<noteq> audio_sources self"
    by simp
  from assms have 5: "\<forall>r \<in> set refs. r \<noteq> audio_sources self"
    by (simp add: agree_def)
  show ?thesis
    unfolding agree_def using 1 2 3 4 5 by simp
qed

lemma agree_mutate:
  assumes "agree self refs w w'" and "k < length refs"
  shows "agree self refs (list_mutate (refs ! k) f w) w'"
  using assms by (auto simp add: agree_def live_def list_mutate_def list_get_def)

lemma client_run_agree:
  "agree self refs w w' \<Longrightarrow>
   list_get (audio_sources self) (snd (client_run self steps (refs, w))) =
   list_get (audio_sources self) (snd (client_run self (filter is_call steps) (refs, w')))"
proof (induction steps arbitrary: refs w w')
  case Nil
  then show ?case by (simp add: agree_def)
next
  case (Cons step steps)
  show ?case
  proof (cases step)
    case (CallSourcesList srcs)
    have r: "fst (sources_list self (w\<lparr>server_sources := srcs\<rparr>))
           = fst (sources_list self (w'\<lparr>server_sources := srcs\<rparr>))"
      using Cons.prems by (simp add: sources_list_ref agree_def live_def)
    from Cons.IH [OF agree_call [OF Cons.prems, of srcs]] r CallSourcesList
    show ?thesis by (simp add: split_beta)
  next
    case (MutateReturned k xs)
    show ?thesis
    proof (cases "k < length refs")
      case True
      from Cons.IH [OF agree_mutate [OF Cons.prems True]] MutateReturned True
      show ?thesis by simp
    next
      case False
      from Cons.IH [OF Cons.prems] MutateReturned False
      show ?thesis by simp
    qed
  qed
qed

text \<open>
  Claim C10. The list \<open>sources_list\<close> returns is a new object (its reference is the next
  free one, so it is neither the cache nor anything allocated before) with the content of
  the cache. And for every sequence of calls and caller-side writes to returned lists,
  the cache ends with the content it would have without any of the writes.
\<close>

theorem returned_lists_do_not_alias_the_cache:
  assumes "live self w"
  shows "fst (sources_list self w) \<noteq> audio_sources self
       \<and> fst (sources_list self w) = length (heap w)
       \<and> list_get (fst (sources_list self w)) (snd (sources_list self w))
           = list_get (audio_sources self) (snd (sources_list self w))
       \<and> list_get (audio_sources self) (snd (client_run self steps ([], w)))
           = list_get (audio_sources self) (snd (client_run self (filter is_call steps) ([], w)))"
proof -
  have "agree self [] w w" using assms by (simp add: agree_def)
  from client_run_agree [OF this, of steps] show ?thesis
    using assms sources_list_ref [OF assms] sources_list_copy [OF assms]
    by (simp add: live_def)
qed

theorem returned_lists_do_not_alias_the_cache_witness:
  "live example_backend example_world
   \<and> fst (sources_list example_backend example_world) = 1
   \<and> list_get (audio_sources example_backend)
        (snd (client_run example_backend
           [CallSourcesList [mic0], MutateReturned 0 [mic1, mic1], CallSourcesList [mic1]]
           ([], example_world)))
     = list_get (audio_sources example_backend)
        (snd (client_run example_backend [CallSourcesList [mic0], CallSourcesList [mic1]]
           ([], example_world)))"
proof -
  have h1: "live example_backend example_world"
    by (simp add: example_world_def example_backend_def live_def)
  have l: "length (heap example_world) = 1" by (simp add: example_world_def)
  from returned_lists_do_not_alias_the_cache [OF h1,
      of "[CallSourcesList [mic0], MutateReturned 0 [mic1, mic1], CallSourcesList [mic1]]"] h1 l
  show ?thesis by simp
qed

section \<open>Facts about the module graph controller\<close>

lemma foldl_list_append_heap:
  "foldl (\<lambda>w src. list_append r src w) w xs =
     w\<lparr>heap := foldl (\<lambda>h src. h[r := h ! r @ [src]]) (heap w) xs\<rparr>"
  by (induction xs arbitrary: w) (simp_all add: list_append_def)

lemma sources_list_server_log:
  "server_log (snd (sources_list self w)) =
     server_log w @ (if list_get (audio_sources self) w = [] then [SourceList] else [])"
  by (simp add: sources_list_def pulse_source_list_def list_copy_def list_new_def
      foldl_list_append_heap)

lemma sources_list_server_accepts:
  "server_accepts (snd (sources_list self w)) = server_accepts w"
  by (simp add: sources_list_def pulse_source_list_def list_copy_def list_new_def
      foldl_list_append_heap)

lemma load_modules_accepted:
  assumes "\<forall>log m a. server_accepts w log m a"
  shows \<open>load_modules mic_name control_level lib_path w =
    (Inr (),
     w\<lparr>server_log := server_log w @
        [ModuleLoad ''module-null-sink''
           ''sink_name=mic_denoised_out sink_properties="device.description='Cadmus Microphone Sink'"''
           True,
         ModuleLoad ''module-ladspa-sink''
           (''sink_name=mic_raw_in sink_master=mic_denoised_out label=noise_suppressor_mono plugin=''
            @ lib_path @ '' control='' @ str_of_int (max control_level 50)
            @ '' sink_properties="device.description='Cadmus Raw Microphone Redirect'"'')
           True,
         ModuleLoad ''module-loopback''
           (''latency_msec=1 source='' @ mic_name @ '' sink=mic_raw_in channels=1'')
           True,
         ModuleLoad ''module-remap-source''
           ''master=mic_denoised_out.monitor source_name=denoised source_properties="device.description='Cadmus Denoised Microphone (Use me!)'"''
           True],
       stdout := stdout w @ [''Set suppression level to '' @ str_of_int (max control_level 50)]\<rparr>)\<close>
  using assms
  by (simp add: load_modules_def and_then_def pulse_module_load_def print_def Let_def)

lemma example_sources_list:
  "sources_list example_backend example_world =
     (1, example_world\<lparr>heap := [[mic0], [mic0]], server_log := [SourceList]\<rparr>)"
  by (simp add: example_world_def example_backend_def sources_list_def list_get_def
      list_copy_def list_new_def pulse_source_list_def list_append_def)

text \<open>
  Claim C1. For a device name among those the enumerator returns, and a server that
  accepts the loads, \<open>enable_noise_suppression\<close> succeeds and issues exactly four module
  loads, in this order: the null sink \<open>mic_denoised_out\<close>; the LADSPA sink \<open>mic_raw_in\<close>
  with \<open>sink_master=mic_denoised_out\<close>; the loopback with \<open>latency_msec=1\<close>,
  \<open>source=\<close> the caller's device name, \<open>sink=mic_raw_in\<close> and \<open>channels=1\<close>; the remap
  source \<open>denoised\<close> with \<open>master=mic_denoised_out.monitor\<close>. \<open>w1\<close> is the world after the
  enumeration the validation makes; the only other request is that enumeration, made when
  the cache is still empty.
\<close>

theorem enable_issues_four_module_loads:
  assumes "sources_list self w = (r, w1)"
    and "mic_name \<in> set (map name (list_get r w1))"
    and "\<forall>log m a. server_accepts w log m a"
  shows \<open>enable_noise_suppression self mic_name control_level w =
    (Inr (),
     w1\<lparr>server_log := server_log w1 @
        [ModuleLoad ''module-null-sink''
           ''sink_name=mic_denoised_out sink_properties="device.description='Cadmus Microphone Sink'"''
           True,
         ModuleLoad ''module-ladspa-sink''
           (''sink_name=mic_raw_in sink_master=mic_denoised_out label=noise_suppressor_mono plugin=''
            @ cadmus_lib_path self @ '' control='' @ str_of_int (max control_level 50)
            @ '' sink_properties="device.description='Cadmus Raw Microphone Redirect'"'')
           True,
         ModuleLoad ''module-loopback''
           (''latency_msec=1 source='' @ mic_name @ '' sink=mic_raw_in channels=1'')
           True,
         ModuleLoad ''module-remap-source''
           ''master=mic_denoised_out.monitor source_name=denoised source_properties="device.description='Cadmus Denoised Microphone (Use me!)'"''
           True],
       stdout := stdout w1 @ [''Set suppression level to '' @ str_of_int (max control_level 50)]\<rparr>)
    \<and> server_log w1 =
        server_log w @ (if list_get (audio_sources self) w = [] then [SourceList] else [])\<close>
proof -
  have acc: "\<forall>log m a. server_accepts w1 log m a"
    using assms(3) sources_list_server_accepts [of self w] by (simp add: assms(1))
  have log: "server_log w1 =
      server_log w @ (if list_get (audio_sources self) w = [] then [SourceList] else [])"
    using sources_list_server_log [of self w] by (simp add: assms(1))
  have "enable_noise_suppression self mic_name control_level w =
      load_modules mic_name control_level (cadmus_lib_path self) w1"
    using assms(2) by (simp add: enable_noise_suppression_def assms(1))
  with log show ?thesis
    by (simp only: load_modules_accepted [OF acc] simp_thms)
qed

theorem enable_issues_four_module_loads_witness:
  \<open>sources_list example_backend example_world =
     (1, example_world\<lparr>heap := [[mic0], [mic0]], server_log := [SourceList]\<rparr>)
   \<and> ''mic0'' \<in> set (map name [mic0])
   \<and> (\<forall>log m a. server_accepts example_world log m a)
   \<and> fst (enable_noise_suppression example_backend ''mic0'' 30 example_world) = Inr ()
   \<and> server_log (snd (enable_noise_suppression example_backend ''mic0'' 30 example_world)) =
       [SourceList,
        ModuleLoad ''module-null-sink''
          ''sink_name=mic_denoised_out sink_properties="device.description='Cadmus Microphone Sink'"''
          True,
        ModuleLoad ''module-ladspa-sink''
          ''sink_name=mic_raw_in sink_master=mic_denoised_out label=noise_suppressor_mono plugin=/home/u/.cache/cadmus/librnnoise_ladspa.so control=50 sink_properties="device.description='Cadmus Raw Microphone Redirect'"''
          True,
        ModuleLoad ''module-loopback'' ''latency_msec=1 source=mic0 sink=mic_raw_in channels=1'' True,
        ModuleLoad ''module-remap-source''
          ''master=mic_denoised_out.monitor source_name=denoised source_properties="device.description='Cadmus Denoised Microphone (Use me!)'"''
          True]\<close>
proof -
  let ?w1 = "example_world\<lparr>heap := [[mic0], [mic0]], server_log := [SourceList]\<rparr>"
  have h1: "sources_list example_backend example_world = (1, ?w1)"
    by (rule example_sources_list)
  have h2: "''mic0'' \<in> set (map name (list_get 1 ?w1))"
    by (simp add: list_get_def mic0_def)
  have h3: "\<forall>log m a. server_accepts example_world log m a"
    by (simp add: example_world_def)
  from enable_issues_four_module_loads [OF h1 h2 h3, of 30] h1 h3
  show ?thesis
    by (simp add: mic0_def example_backend_def str_of_int_def)
qed

text \<open>
  Claim C2, as far as the code goes. For a device name that is not among those the
  enumerator returns, \<open>enable_noise_suppression\<close> raises the exception with the message
  \<open>Unknown mic name ...\<close> and leaves the world as the enumeration left it: no module load
  and no control-channel line is issued. The server is asked for its source list when the
  cache is empty, and not at all when it is not.
\<close>

theorem enable_unknown_device_loads_nothing:
  assumes "sources_list self w = (r, w1)"
    and "mic_name \<notin> set (map name (list_get r w1))"
  shows "enable_noise_suppression self mic_name control_level w =
           (Inl (Exception (''Unknown mic name '' @ mic_name)), w1)
       \<and> server_log w1 =
           server_log w @ (if list_get (audio_sources self) w = [] then [SourceList] else [])"
proof -
  have log: "server_log w1 =
      server_log w @ (if list_get (audio_sources self) w = [] then [SourceList] else [])"
    using sources_list_server_log [of self w] by (simp add: assms(1))
  have "enable_noise_suppression self mic_name control_level w =
      (Inl (Exception (''Unknown mic name '' @ mic_name)), w1)"
    using assms(2) by (simp add: enable_noise_suppression_def assms(1))
  with log show ?thesis by simp
qed

theorem enable_unknown_device_loads_nothing_witness:
  "sources_list example_backend example_world =
     (1, example_world\<lparr>heap := [[mic0], [mic0]], server_log := [SourceList]\<rparr>)
   \<and> ''doesnotexist'' \<notin> set (map name [mic0])
   \<and> enable_noise_suppression example_backend ''doesnotexist'' 50 example_world =
       (Inl (Exception ''Unknown mic name doesnotexist''),
        example_world\<lparr>heap := [[mic0], [mic0]], server_log := [SourceList]\<rparr>)"
proof -
  let ?w1 = "example_world\<lparr>heap := [[mic0], [mic0]], server_log := [SourceList]\<rparr>"
  have h1: "sources_list example_backend example_world = (1, ?w1)"
    by (rule example_sources_list)
  have h2: "''doesnotexist'' \<notin> set (map name (list_get 1 ?w1))"
    by (simp add: list_get_def mic0_def)
  from enable_unknown_device_loads_nothing [OF h1 h2, of 50] h1
  show ?thesis by (simp add: mic0_def)
qed

text \<open>
  C2 says that no server call at all is issued. On a backend whose cache is still empty
  the validation itself asks the server for its sources: one request is recorded.
\<close>

theorem enable_unknown_device_counterexample:
  "''doesnotexist'' \<notin> set (map name (list_get
       (fst (sources_list example_backend example_world))
       (snd (sources_list example_backend example_world))))
   \<and> server_log example_world = []
   \<and> server_log (snd (enable_noise_suppression example_backend ''doesnotexist'' 50
         example_world)) = [SourceList]"
  by (simp add: example_sources_list enable_noise_suppression_def list_get_def mic0_def)
     (simp add: example_world_def)

text \<open>
  Claim C3. For every integer control level, the request for the filter sink (the second
  request of \<open>load_modules\<close>, issued once the null sink is accepted) carries
  \<open>control=\<close> followed by the decimal digits of 50 when the level is below 50 and of
  the level itself otherwise; and a low level raises nothing: with a server that accepts
  the loads the function returns normally for every level.
\<close>

theorem control_level_floor:
  assumes \<open>server_accepts w (server_log w) ''module-null-sink''
             ''sink_name=mic_denoised_out sink_properties="device.description='Cadmus Microphone Sink'"''\<close>
  shows \<open>(\<exists>ok. server_log (snd (load_modules mic_name control_level lib_path w))
                 ! Suc (length (server_log w)) =
               ModuleLoad ''module-ladspa-sink''
                 (''sink_name=mic_raw_in sink_master=mic_denoised_out label=noise_suppressor_mono plugin=''
            @ lib_path @ '' control='' @ str_of_int (if control_level < 50 then 50 else control_level)
            @ '' sink_properties="device.description='Cadmus Raw Microphone Redirect'"'')
                 ok)
       \<and> ((\<forall>log m a. server_accepts w log m a) \<longrightarrow>
            fst (load_modules mic_name control_level lib_path w) = Inr ())\<close>
proof -
  have m: "max control_level 50 = (if control_level < 50 then 50 else control_level)"
    by simp
  have 1: ?thesis if "\<forall>log m a. server_accepts w log m a"
    using that by (auto simp add: load_modules_accepted nth_append m)
  have 2: ?thesis if "\<not> (\<forall>log m a. server_accepts w log m a)"
    using that assms
    by (auto simp add: load_modules_def and_then_def pulse_module_load_def print_def Let_def
        nth_append m)
  from 1 2 show ?thesis by blast
qed

theorem control_level_floor_witness:
  \<open>server_accepts example_world (server_log example_world) ''module-null-sink''
      ''sink_name=mic_denoised_out sink_properties="device.description='Cadmus Microphone Sink'"''
   \<and> (\<exists>ok. server_log (snd (load_modules ''mic0'' 30 ''/p/lib.so'' example_world)) ! 1 =
         ModuleLoad ''module-ladspa-sink''
           ''sink_name=mic_raw_in sink_master=mic_denoised_out label=noise_suppressor_mono plugin=/p/lib.so control=50 sink_properties="device.description='Cadmus Raw Microphone Redirect'"''
           ok)
   \<and> fst (load_modules ''mic0'' 30 ''/p/lib.so'' example_world) = Inr ()\<close>
proof -
  have h: \<open>server_accepts example_world (server_log example_world) ''module-null-sink''
      ''sink_name=mic_denoised_out sink_properties="device.description='Cadmus Microphone Sink'"''\<close>
    by (simp add: example_world_def)
  have a: "\<forall>log m a. server_accepts example_world log m a"
    by (simp add: example_world_def)
  have l: "length (server_log example_world) = 0" by (simp add: example_world_def)
  from control_level_floor [OF h, of "''mic0''" 30 "''/p/lib.so''"] h a l
  show ?thesis by (simp add: str_of_int_def)
qed

text \<open>
  Claim C4. For every backend and every world, whatever has been loaded or cached before,
  \<open>disable_noise_suppression\<close> writes the same four lines to the control channel, in the
  order loopback, null sink, LADSPA sink, remap source, and changes nothing else; the one
  thing it depends on is that the control channel can be opened.
\<close>

theorem disable_issues_four_unloads:
  "disable_noise_suppression self w =
     (if cli_available w
      then (Inr (),
            w\<lparr>server_log := server_log w @
               [CliWrite (''unload-module module-loopback'' @ [CHR 0x0A]),
                CliWrite (''unload-module module-null-sink'' @ [CHR 0x0A]),
                CliWrite (''unload-module module-ladspa-sink'' @ [CHR 0x0A]),
                CliWrite (''unload-module module-remap-source'' @ [CHR 0x0A])]\<rparr>)
      else (Inl ConnectionRefusedError, w))"
  by (simp add: disable_noise_suppression_def unload_modules_def cli_command_def cli_write_def)

theorem disable_issues_four_unloads_witness:
  "cli_available example_world
   \<and> fst (disable_noise_suppression example_backend example_world) = Inr ()
   \<and> server_log (snd (disable_noise_suppression example_backend example_world)) =
       [CliWrite (''unload-module module-loopback'' @ [CHR 0x0A]),
        CliWrite (''unload-module module-null-sink'' @ [CHR 0x0A]),
        CliWrite (''unload-module module-ladspa-sink'' @ [CHR 0x0A]),
        CliWrite (''unload-module module-remap-source'' @ [CHR 0x0A])]"
proof -
  have h: "cli_available example_world" by (simp add: example_world_def)
  have l: "server_log example_world = []" by (simp add: example_world_def)
  from disable_issues_four_unloads [of example_backend example_world] h l
  show ?thesis by simp
qed

text \<open>
  Claim C7. When the server refuses the second, third or fourth load after accepting the
  ones before it, \<open>enable_noise_suppression\<close> ends with the server's error at that point:
  the world it leaves is the one after the enumeration with the accepted loads and the
  refused one added to the log. Nothing is written to the control channel, so no module is
  unloaded, and nothing is printed.
\<close>

theorem failed_load_is_not_rolled_back:
  fixes self :: backend and w w1 :: world and mic_name lib :: string and control_level :: int
  defines \<open>null_sink \<equiv>
      ''sink_name=mic_denoised_out sink_properties="device.description='Cadmus Microphone Sink'"''\<close>
    and \<open>ladspa_sink \<equiv>
      (''sink_name=mic_raw_in sink_master=mic_denoised_out label=noise_suppressor_mono plugin=''
        @ cadmus_lib_path self @ '' control='' @ str_of_int (max control_level 50)
        @ '' sink_properties="device.description='Cadmus Raw Microphone Redirect'"'')\<close>
    and \<open>loopback \<equiv> ''latency_msec=1 source='' @ mic_name @ '' sink=mic_raw_in channels=1''\<close>
    and \<open>remap_source \<equiv>
      ''master=mic_denoised_out.monitor source_name=denoised source_properties="device.description='Cadmus Denoised Microphone (Use me!)'"''\<close>
  defines "log1 \<equiv> server_log w1 @ [ModuleLoad ''module-null-sink'' null_sink True]"
  defines "log2 \<equiv> log1 @ [ModuleLoad ''module-ladspa-sink'' ladspa_sink True]"
  defines "log3 \<equiv> log2 @ [ModuleLoad ''module-loopback'' loopback True]"
  assumes "sources_list self w = (r, w1)"
    and "mic_name \<in> set (map name (list_get r w1))"
    and "server_accepts w (server_log w1) ''module-null-sink'' null_sink"
  shows "(\<not> server_accepts w log1 ''module-ladspa-sink'' ladspa_sink \<longrightarrow>
            enable_noise_suppression self mic_name control_level w =
              (Inl PulseOperationFailed,
               w1\<lparr>server_log := log1 @ [ModuleLoad ''module-ladspa-sink'' ladspa_sink False]\<rparr>))
       \<and> (server_accepts w log1 ''module-ladspa-sink'' ladspa_sink
            \<and> \<not> server_accepts w log2 ''module-loopback'' loopback \<longrightarrow>
            enable_noise_suppression self mic_name control_level w =
              (Inl PulseOperationFailed,
               w1\<lparr>server_log := log2 @ [ModuleLoad ''module-loopback'' loopback False]\<rparr>))
       \<and> (server_accepts w log1 ''module-ladspa-sink'' ladspa_sink
            \<and> server_accepts w log2 ''module-loopback'' loopback
            \<and> \<not> server_accepts w log3 ''module-remap-source'' remap_source \<longrightarrow>
            enable_noise_suppression self mic_name control_level w =
              (Inl PulseOperationFailed,
               w1\<lparr>server_log := log3 @ [ModuleLoad ''module-remap-source'' remap_source False]\<rparr>))"
proof -
  have acc: "server_accepts w1 = server_accepts w"
    using sources_list_server_accepts [of self w] by (simp add: assms(8))
  have e: "enable_noise_suppression self mic_name control_level w =
      load_modules mic_name control_level (cadmus_lib_path self) w1"
    using assms(9) by (simp add: enable_noise_suppression_def assms(8))
  have 1: "pulse_module_load ''module-null-sink'' null_sink w1 = (Inr (), w1\<lparr>server_log := log1\<rparr>)"
    using assms(10) by (simp add: pulse_module_load_def acc log1_def)
  have 2: "pulse_module_load ''module-ladspa-sink'' ladspa_sink (w1\<lparr>server_log := log1\<rparr>) =
      (if server_accepts w log1 ''module-ladspa-sink'' ladspa_sink
       then (Inr (), w1\<lparr>server_log := log2\<rparr>)
       else (Inl PulseOperationFailed,
             w1\<lparr>server_log := log1 @ [ModuleLoad ''module-ladspa-sink'' ladspa_sink False]\<rparr>))"
    by (simp add: pulse_module_load_def acc log2_def)
  have 3: "pulse_module_load ''module-loopback'' loopback (w1\<lparr>server_log := log2\<rparr>) =
      (if server_accepts w log2 ''module-loopback'' loopback
       then (Inr (), w1\<lparr>server_log := log3\<rparr>)
       else (Inl PulseOperationFailed,
             w1\<lparr>server_log := log2 @ [ModuleLoad ''module-loopback'' loopback False]\<rparr>))"
    by (simp add: pulse_module_load_def acc log3_def)
  have 4: "\<not> server_accepts w log3 ''module-remap-source'' remap_source \<Longrightarrow>
      pulse_module_load ''module-remap-source'' remap_source (w1\<lparr>server_log := log3\<rparr>) =
      (Inl PulseOperationFailed,
       w1\<lparr>server_log := log3 @ [ModuleLoad ''module-remap-source'' remap_source False]\<rparr>)"
    by (simp add: pulse_module_load_def acc)
  have l: "load_modules mic_name control_level (cadmus_lib_path self) =
      and_then (pulse_module_load ''module-null-sink'' null_sink) (\<lambda>_.
      and_then (pulse_module_load ''module-ladspa-sink'' ladspa_sink) (\<lambda>_.
      and_then (pulse_module_load ''module-loopback'' loopback) (\<lambda>_.
      and_then (pulse_module_load ''module-remap-source'' remap_source) (\<lambda>_.
      (\<lambda>w. (Inr (), print (''Set suppression level to '' @ str_of_int (max control_level 50)) w))))))"
    by (simp add: load_modules_def Let_def null_sink_def ladspa_sink_def loopback_def
        remap_source_def)
  show ?thesis
    unfolding e l by (simp add: and_then_def 1 2 3 4)
qed

theorem failed_load_is_not_rolled_back_witness:
  \<open>enable_noise_suppression example_backend ''mic0'' 30
      (example_world\<lparr>server_accepts := \<lambda>log m a. m \<noteq> ''module-loopback''\<rparr>) =
     (Inl PulseOperationFailed,
      example_world\<lparr>server_accepts := \<lambda>log m a. m \<noteq> ''module-loopback'',
        heap := [[mic0], [mic0]],
        server_log :=
          [SourceList,
           ModuleLoad ''module-null-sink''
             ''sink_name=mic_denoised_out sink_properties="device.description='Cadmus Microphone Sink'"''
             True,
           ModuleLoad ''module-ladspa-sink''
             ''sink_name=mic_raw_in sink_master=mic_denoised_out label=noise_suppressor_mono plugin=/home/u/.cache/cadmus/librnnoise_ladspa.so control=50 sink_properties="device.description='Cadmus Raw Microphone Redirect'"''
             True,
           ModuleLoad ''module-loopback'' ''latency_msec=1 source=mic0 sink=mic_raw_in channels=1'' False]\<rparr>)\<close>
proof -
  let ?w = "example_world\<lparr>server_accepts := \<lambda>log m a. m \<noteq> ''module-loopback''\<rparr>"
  let ?w1 = "?w\<lparr>heap := [[mic0], [mic0]], server_log := [SourceList]\<rparr>"
  have h1: "sources_list example_backend ?w = (1, ?w1)"
    by (simp add: example_world_def example_backend_def sources_list_def list_get_def
        list_copy_def list_new_def pulse_source_list_def list_append_def)
  have h2: "''mic0'' \<in> set (map name (list_get 1 ?w1))"
    by (simp add: list_get_def mic0_def)
  have h3: \<open>server_accepts ?w (server_log ?w1) ''module-null-sink''
      ''sink_name=mic_denoised_out sink_properties="device.description='Cadmus Microphone Sink'"''\<close>
    by simp
  from failed_load_is_not_rolled_back [OF h1 h2 h3, of 30]
  show ?thesis
    by (simp add: mic0_def example_backend_def str_of_int_def)
qed

section \<open>Facts about the plugin distributor and the command line\<close>

lemma cache_path_join:
  "os_path_join home [''.cache'', ''cadmus''] =
     (if home = [] \<or> last home = CHR ''/'' then home @ ''.cache/cadmus''
      else home @ ''/.cache/cadmus'')"
  by (simp add: os_path_join_def)

lemma cache_path_ends: "\<exists>p. os_path_join home [''.cache'', ''cadmus''] = p @ ''cadmus''"
  by (simp add: os_path_join_def)

lemma lib_path_join:
  "os_path_join (p @ ''cadmus'') [''librnnoise_ladspa.so''] = p @ ''cadmus/librnnoise_ladspa.so''"
  by (simp add: os_path_join_def)

lemma lib_path_dirname:
  "os_path_dirname (p @ ''cadmus/librnnoise_ladspa.so'') = p @ ''cadmus''"
  by (simp add: os_path_dirname_def)

lemma drop_cadmus_binary_ok:
  assumes "environ w ''HOME'' = Some home"
    and "os_path_join home [''.cache'', ''cadmus''] = cache"
    and "os_path_join cache [''librnnoise_ladspa.so''] = dst"
    and "os_path_dirname dst = cache"
    and "dst \<noteq> cache"
    and "app_context self ''librnnoise_ladspa.so'' = Some resource"
    and "files w resource = Some content"
    and "resource \<noteq> dst"
    and "cache \<in> dirs w \<or> (files w cache = None \<and> cache \<notin> denied w)"
    and "dst \<notin> dirs w"
    and "dst \<notin> denied w"
  shows "drop_cadmus_binary self w =
           (Inr (), self\<lparr>cadmus_lib_path := dst\<rparr>,
            w\<lparr>dirs := insert cache (dirs w), files := (files w)(dst \<mapsto> content)\<rparr>)"
proof (cases "cache \<in> dirs w")
  case True
  then have "insert cache (dirs w) = dirs w" by auto
  with True assms show ?thesis
    by (simp add: drop_cadmus_binary_def Let_def os_path_exists_def copyfile_def)
next
  case False
  with assms show ?thesis
    by (simp add: drop_cadmus_binary_def Let_def os_path_exists_def os_makedirs_def
        copyfile_def)
qed

text \<open>
  Claim C6. With \<open>HOME\<close> set, the bundled plugin found and readable, and a file system
  that lets the cache directory and the destination be written, every call of
  \<open>drop_cadmus_binary\<close> returns normally, the cache directory exists afterwards (it is
  created when absent), the destination holds the content of the bundled file whatever it
  held before, and the destination path is recorded in \<open>cadmus_lib_path\<close>. A second call,
  made after the bundled file has changed to \<open>content'\<close>, copies again: the destination
  then holds \<open>content'\<close>. The cache directory is \<open>HOME\<close> followed by \<open>/.cache/cadmus\<close>
  for a \<open>HOME\<close> that does not end with a slash.
\<close>

theorem drop_cadmus_binary_copies_plugin:
  fixes self :: backend and w :: world and home resource content content' :: string
  defines "cache \<equiv> os_path_join home [''.cache'', ''cadmus'']"
  defines "dst \<equiv> cache @ ''/librnnoise_ladspa.so''"
  defines "self1 \<equiv> self\<lparr>cadmus_lib_path := dst\<rparr>"
  defines "w1 \<equiv> w\<lparr>dirs := insert cache (dirs w), files := (files w)(dst \<mapsto> content)\<rparr>"
  assumes "environ w ''HOME'' = Some home"
    and "app_context self ''librnnoise_ladspa.so'' = Some resource"
    and "files w resource = Some content"
    and "resource \<noteq> dst"
    and "cache \<in> dirs w \<or> (files w cache = None \<and> cache \<notin> denied w)"
    and "dst \<notin> dirs w"
    and "dst \<notin> denied w"
  shows "drop_cadmus_binary self w = (Inr (), self1, w1)
       \<and> drop_cadmus_binary self1 (w1\<lparr>files := (files w1)(resource \<mapsto> content')\<rparr>) =
           (Inr (), self1, w1\<lparr>files := (files w1)(resource \<mapsto> content', dst \<mapsto> content')\<rparr>)
       \<and> (home \<noteq> [] \<and> last home \<noteq> CHR ''/'' \<longrightarrow> cache = home @ ''/.cache/cadmus'')"
proof -
  obtain p where p: "cache = p @ ''cadmus''"
    using cache_path_ends [of home] by (auto simp add: cache_def)
  have c: "os_path_join home [''.cache'', ''cadmus''] = cache"
    by (simp add: cache_def)
  have dst: "os_path_join cache [''librnnoise_ladspa.so''] = dst"
    by (simp add: p dst_def lib_path_join)
  have dir: "os_path_dirname dst = cache"
    using lib_path_dirname [of p] by (simp add: p dst_def)
  have ne: "dst \<noteq> cache" by (simp add: dst_def)
  have first: "drop_cadmus_binary self w = (Inr (), self1, w1)"
    unfolding self1_def w1_def
    by (rule drop_cadmus_binary_ok [OF assms(5) c dst dir ne assms(6-11)])
  let ?v = "w1\<lparr>files := (files w1)(resource \<mapsto> content')\<rparr>"
  have "drop_cadmus_binary self1 ?v =
          (Inr (), self1\<lparr>cadmus_lib_path := dst\<rparr>,
           ?v\<lparr>dirs := insert cache (dirs ?v), files := (files ?v)(dst \<mapsto> content')\<rparr>)"
  proof (rule drop_cadmus_binary_ok [OF _ c dst dir ne])
    show "environ ?v ''HOME'' = Some home" using assms(5) by (simp add: w1_def)
    show "app_context self1 ''librnnoise_ladspa.so'' = Some resource"
      using assms(6) by (simp add: self1_def)
    show "files ?v resource = Some content'" by simp
    show "resource \<noteq> dst" by (rule assms(8))
    show "cache \<in> dirs ?v \<or> (files ?v cache = None \<and> cache \<notin> denied ?v)"
      by (simp add: w1_def)
    show "dst \<notin> dirs ?v" using assms(10) by (simp add: w1_def dst_def)
    show "dst \<notin> denied ?v" using assms(11) by (simp add: w1_def)
  qed
  then have second: "drop_cadmus_binary self1 ?v =
      (Inr (), self1, w1\<lparr>files := (files w1)(resource \<mapsto> content', dst \<mapsto> content')\<rparr>)"
    by (simp add: self1_def w1_def)
  have third: "home \<noteq> [] \<and> last home \<noteq> CHR ''/'' \<longrightarrow> cache = home @ ''/.cache/cadmus''"
    by (simp add: cache_def cache_path_join)
  from first second third show ?thesis by blast
qed

theorem drop_cadmus_binary_copies_plugin_witness:
  "environ example_world ''HOME'' = Some ''/home/u''
   \<and> app_context example_backend ''librnnoise_ladspa.so'' = Some ''/opt/cadmus/librnnoise_ladspa.so''
   \<and> files example_world ''/opt/cadmus/librnnoise_ladspa.so'' = Some ''ELF''
   \<and> files example_world ''/home/u/.cache/cadmus'' = None
   \<and> ''/home/u/.cache/cadmus'' \<notin> denied example_world
   \<and> drop_cadmus_binary example_backend example_world =
       (Inr (),
        example_backend\<lparr>cadmus_lib_path := ''/home/u/.cache/cadmus/librnnoise_ladspa.so''\<rparr>,
        example_world\<lparr>dirs := insert ''/home/u/.cache/cadmus'' (dirs example_world),
          files := (files example_world)
            (''/home/u/.cache/cadmus/librnnoise_ladspa.so'' \<mapsto> ''ELF'')\<rparr>)"
proof -
  have c: "os_path_join ''/home/u'' [''.cache'', ''cadmus''] = ''/home/u/.cache/cadmus''"
    by (simp add: os_path_join_def)
  have h1: "environ example_world ''HOME'' = Some ''/home/u''"
    by (simp add: example_world_def)
  have h2: "app_context example_backend ''librnnoise_ladspa.so''
      = Some ''/opt/cadmus/librnnoise_ladspa.so''"
    by (simp add: example_backend_def example_context_def)
  have h3: "files example_world ''/opt/cadmus/librnnoise_ladspa.so'' = Some ''ELF''"
    by (simp add: example_world_def)
  have h4: "''/opt/cadmus/librnnoise_ladspa.so''
      \<noteq> os_path_join ''/home/u'' [''.cache'', ''cadmus''] @ ''/librnnoise_ladspa.so''"
    by (simp add: c)
  have h5: "os_path_join ''/home/u'' [''.cache'', ''cadmus''] \<in> dirs example_world
      \<or> (files example_world (os_path_join ''/home/u'' [''.cache'', ''cadmus'']) = None
         \<and> os_path_join ''/home/u'' [''.cache'', ''cadmus''] \<notin> denied example_world)"
    by (simp add: c example_world_def)
  have h6: "os_path_join ''/home/u'' [''.cache'', ''cadmus''] @ ''/librnnoise_ladspa.so''
      \<notin> dirs example_world"
    by (simp add: c example_world_def)
  have h7: "os_path_join ''/home/u'' [''.cache'', ''cadmus''] @ ''/librnnoise_ladspa.so''
      \<notin> denied example_world"
    by (simp add: c example_world_def)
  have e: "files example_world ''/home/u/.cache/cadmus'' = None
      \<and> ''/home/u/.cache/cadmus'' \<notin> denied example_world"
    by (simp add: example_world_def)
  from drop_cadmus_binary_copies_plugin [OF h1 h2 h3 h4 h5 h6 h7] h1 h2 h3 e
  show ?thesis by (simp add: c)
qed

lemma example_init:
  "CadmusBackendApp_init example_context example_world =
     (Inr \<lparr>audio_sources = 1,
           cadmus_lib_path = ''/home/u/.cache/cadmus/librnnoise_ladspa.so'',
           app_context = example_context\<rparr>,
      example_world\<lparr>heap := [[], []],
        dirs := {''/home/u/.cache/cadmus'', ''/home/u''},
        files := [''/opt/cadmus/librnnoise_ladspa.so'' \<mapsto> ''ELF'',
                  ''/home/u/.cache/cadmus/librnnoise_ladspa.so'' \<mapsto> ''ELF'']\<rparr>)"
  by (simp add: CadmusBackendApp_init_def list_new_def example_world_def example_context_def
      drop_cadmus_binary_def os_path_join_def os_path_exists_def os_makedirs_def copyfile_def
      os_path_dirname_def)

text \<open>
  Claim C8. \<open>b\<close> is the backend the command line interface builds and \<open>w2\<close> the world
  after it has enumerated the sources for the parser's \<open>choices\<close>. The command line
  \<open>enable s\<close> with \<open>s\<close> among the enumerated names runs
  \<open>enable_noise_suppression b s 50\<close>; with \<open>s\<close> not among them the parser ends the process
  and nothing else happens; and \<open>run\<close> on any parsed \<open>enable\<close> command passes the level 50.
\<close>

theorem cli_enable_uses_level_50:
  assumes "CadmusBackendApp_init ctx w = (Inr b, w1)"
    and "sources_list b w1 = (r, w2)"
  shows "(s \<in> set (map name (list_get r w2)) \<and> take 1 s \<noteq> ''-'' \<longrightarrow>
            main ctx [''enable'', s] w = enable_noise_suppression b s 50 w2)
       \<and> (s \<notin> set (map name (list_get r w2)) \<longrightarrow>
            main ctx [''enable'', s] w = (Inl SystemExit, w2))
       \<and> run \<lparr>backend_app = b', args = \<lparr>cmd = Some ''enable'', source = Some s\<rparr>\<rparr> w' =
            enable_noise_suppression b' s 50 w'"
  using assms
  by (simp add: main_def and_then_def CadmusApplicationCli_init_def parse_args_def run_def)

theorem cli_enable_uses_level_50_witness:
  "CadmusBackendApp_init example_context example_world =
     (Inr \<lparr>audio_sources = 1,
           cadmus_lib_path = ''/home/u/.cache/cadmus/librnnoise_ladspa.so'',
           app_context = example_context\<rparr>,
      example_world\<lparr>heap := [[], []],
        dirs := {''/home/u/.cache/cadmus'', ''/home/u''},
        files := [''/opt/cadmus/librnnoise_ladspa.so'' \<mapsto> ''ELF'',
                  ''/home/u/.cache/cadmus/librnnoise_ladspa.so'' \<mapsto> ''ELF'']\<rparr>)
   \<and> main example_context [''enable'', ''mic0''] example_world =
       enable_noise_suppression
         \<lparr>audio_sources = 1,
           cadmus_lib_path = ''/home/u/.cache/cadmus/librnnoise_ladspa.so'',
           app_context = example_context\<rparr> ''mic0'' 50
         (example_world\<lparr>heap := [[], [mic0], [mic0]],
            dirs := {''/home/u/.cache/cadmus'', ''/home/u''},
            files := [''/opt/cadmus/librnnoise_ladspa.so'' \<mapsto> ''ELF'',
                      ''/home/u/.cache/cadmus/librnnoise_ladspa.so'' \<mapsto> ''ELF''],
            server_log := [SourceList]\<rparr>)
   \<and> fst (main example_context [''enable'', ''mic1''] example_world) = Inl SystemExit
   \<and> server_log (snd (main example_context [''enable'', ''mic1''] example_world)) = [SourceList]"
proof -
  let ?b = "\<lparr>audio_sources = 1,
           cadmus_lib_path = ''/home/u/.cache/cadmus/librnnoise_ladspa.so'',
           app_context = example_context\<rparr>"
  let ?w1 = "example_world\<lparr>heap := [[], []],
        dirs := {''/home/u/.cache/cadmus'', ''/home/u''},
        files := [''/opt/cadmus/librnnoise_ladspa.so'' \<mapsto> ''ELF'',
                  ''/home/u/.cache/cadmus/librnnoise_ladspa.so'' \<mapsto> ''ELF'']\<rparr>"
  let ?w2 = "example_world\<lparr>heap := [[], [mic0], [mic0]],
            dirs := {''/home/u/.cache/cadmus'', ''/home/u''},
            files := [''/opt/cadmus/librnnoise_ladspa.so'' \<mapsto> ''ELF'',
                      ''/home/u/.cache/cadmus/librnnoise_ladspa.so'' \<mapsto> ''ELF''],
            server_log := [SourceList]\<rparr>"
  have h1: "CadmusBackendApp_init example_context example_world = (Inr ?b, ?w1)"
    by (rule example_init)
  have h2: "sources_list ?b ?w1 = (2, ?w2)"
    by (simp add: example_world_def sources_list_def list_get_def list_copy_def list_new_def
        pulse_source_list_def list_append_def)
  have n: "map name (list_get 2 ?w2) = [''mic0'']"
    by (simp add: list_get_def mic0_def)
  from cli_enable_uses_level_50 [OF h1 h2, of "''mic0''"]
       cli_enable_uses_level_50 [OF h1 h2, of "''mic1''"] h1 n
  show ?thesis by simp
qed

end
